theory Spec2Isabelle
  imports Main "HOL-Library.Sublist"
begin

section \<open>Strings as the scheduler reads them\<close>

text \<open>
  JavaScript strings are modelled as HOL strings (lists of 8-bit characters), which is
  exact for ASCII text. \<open>toLowerCase\<close> maps \<open>A\<close>..\<open>Z\<close> to \<open>a\<close>..\<open>z\<close>, the
  white space of \<open>trim\<close> and of the regular expression class \<open>\s\<close> is
  space, tab, line feed, vertical tab, form feed and carriage return, and \<open>\d\<close> is
  \<open>0\<close>..\<open>9\<close>.
\<close>

definition lowerChar :: "char \<Rightarrow> char" where
  "lowerChar c =
     (case map_of (zip ''ABCDEFGHIJKLMNOPQRSTUVWXYZ'' ''abcdefghijklmnopqrstuvwxyz'') c of
        Some d \<Rightarrow> d
      | None \<Rightarrow> c)"

definition toLowerCase :: "string \<Rightarrow> string" where
  "toLowerCase s = map lowerChar s"

definition isSpace :: "char \<Rightarrow> bool" where
  "isSpace c = (c \<in> set [CHR '' '', CHR 0x09, CHR 0x0A, CHR 0x0B, CHR 0x0C, CHR 0x0D])"

definition isDigit :: "char \<Rightarrow> bool" where
  "isDigit c = (c \<in> set ''0123456789'')"

definition trim :: "string \<Rightarrow> string" where
  "trim s = rev (dropWhile isSpace (rev (dropWhile isSpace s)))"

text \<open>\<open>String.prototype.includes\<close>: the needle occurs as a contiguous substring.\<close>

fun str_includes :: "string \<Rightarrow> string \<Rightarrow> bool" where
  "str_includes [] sub = (sub = [])"
| "str_includes (c # cs) sub = (prefix sub (c # cs) \<or> str_includes cs sub)"

text \<open>\<open>parseInt\<close> on a string of decimal digits (as captured by \<open>(\d+)\<close>).\<close>

definition digitVal :: "char \<Rightarrow> nat" where
  "digitVal c =
     (case map_of (zip ''0123456789'' [0, 1, 2, 3, 4, 5, 6, 7, 8, 9]) c of
        Some d \<Rightarrow> d
      | None \<Rightarrow> 0)"

definition parseInt :: "string \<Rightarrow> nat" where
  "parseInt ds = foldl (\<lambda>acc c. 10 * acc + digitVal c) 0 ds"

fun stripPrefix :: "string \<Rightarrow> string \<Rightarrow> string option" where
  "stripPrefix [] s = Some s"
| "stripPrefix (p # ps) [] = None"
| "stripPrefix (p # ps) (c # cs) = (if p = c then stripPrefix ps cs else None)"

section \<open>Dates\<close>

text \<open>
  A \<open>Date\<close> is its number of milliseconds since the epoch. Local time is UTC plus a
  fixed offset \<open>tz\<close> (in milliseconds); daylight-saving changes are not modelled, so
  \<open>setHours(getHours() + n)\<close>, \<open>setDate(getDate() + n)\<close> and
  \<open>setMinutes(getMinutes() + n)\<close> add \<open>n\<close> hours, days and minutes.
\<close>

type_synonym date = int

definition msPerMinute :: int where "msPerMinute = 60000"
definition msPerHour :: int where "msPerHour = 3600000"
definition msPerDay :: int where "msPerDay = 86400000"

definition addHours :: "date \<Rightarrow> nat \<Rightarrow> date" where
  "addHours d n = d + int n * msPerHour"

definition addDays :: "date \<Rightarrow> nat \<Rightarrow> date" where
  "addDays d n = d + int n * msPerDay"

definition addMinutes :: "date \<Rightarrow> nat \<Rightarrow> date" where
  "addMinutes d n = d + int n * msPerMinute"

text \<open>\<open>getDay\<close>: 0 is Sunday; 1 January 1970 was a Thursday.\<close>

definition getDay :: "int \<Rightarrow> date \<Rightarrow> nat" where
  "getDay tz d = nat (((d + tz) div msPerDay + 4) mod 7)"

text \<open>\<open>setHours(9, 0, 0, 0)\<close>: nine o'clock local time on the same local day.\<close>

definition setHours9 :: "int \<Rightarrow> date \<Rightarrow> date" where
  "setHours9 tz d = ((d + tz) div msPerDay) * msPerDay + 9 * msPerHour - tz"

section \<open>The response classifier (SchedulerService)\<close>

record ScheduleOptions =
  sendNow :: bool
  sendTomorrow :: bool
  customDate :: "date option"
  noReminder :: bool

datatype timeUnit = UnitHour | UnitDay

text \<open>
  \<open>/in (\d+) (hour|day)s?/\<close> tried at the head of the string. The greedy \<open>\d+\<close>
  takes the whole run of digits: the next character must be a space, so no shorter run
  can match. The result is the pair of capture groups.
\<close>

definition matchInAt :: "string \<Rightarrow> (string \<times> timeUnit) option" where
  "matchInAt s =
     (case stripPrefix ''in '' s of
        None \<Rightarrow> None
      | Some r \<Rightarrow>
          (let ds = takeWhile isDigit r in
           if ds = [] then None
           else (case stripPrefix '' '' (dropWhile isDigit r) of
                   None \<Rightarrow> None
                 | Some u \<Rightarrow>
                     if prefix ''hour'' u then Some (ds, UnitHour)
                     else if prefix ''day'' u then Some (ds, UnitDay)
                     else None)))"

text \<open>\<open>String.prototype.match\<close>: the leftmost position at which the pattern matches.\<close>

fun matchIn :: "string \<Rightarrow> (string \<times> timeUnit) option" where
  "matchIn [] = matchInAt []"
| "matchIn (c # cs) =
     (case matchInAt (c # cs) of Some m \<Rightarrow> Some m | None \<Rightarrow> matchIn cs)"

text \<open>
  \<open>/in\s+(\d+)\s+(?:minutes?|mins?)/\<close> at the head of the string; every alternative
  of the last group begins with \<open>min\<close> and \<open>min\<close> alone matches it.
\<close>

definition matchMinutesAt :: "string \<Rightarrow> string option" where
  "matchMinutesAt s =
     (case stripPrefix ''in'' s of
        None \<Rightarrow> None
      | Some r \<Rightarrow>
          (let r1 = dropWhile isSpace r; ds = takeWhile isDigit r1;
               r2 = dropWhile isDigit r1; r3 = dropWhile isSpace r2 in
           if takeWhile isSpace r = [] \<or> ds = [] \<or> takeWhile isSpace r2 = [] then None
           else if prefix ''min'' r3 then Some ds
           else None))"

fun matchMinutes :: "string \<Rightarrow> string option" where
  "matchMinutes [] = matchMinutesAt []"
| "matchMinutes (c # cs) =
     (case matchMinutesAt (c # cs) of Some m \<Rightarrow> Some m | None \<Rightarrow> matchMinutes cs)"

definition dayNames :: "string list" where
  "dayNames = [''sunday'', ''monday'', ''tuesday'', ''wednesday'', ''thursday'',
               ''friday'', ''saturday'']"

text \<open>\<open>dayNames.indexOf(x)\<close> for an element \<open>x\<close> of the list.\<close>

fun indexOf :: "string list \<Rightarrow> string \<Rightarrow> nat" where
  "indexOf [] x = 0"
| "indexOf (y # ys) x = (if x = y then 0 else Suc (indexOf ys x))"

text \<open>
  \<open>extractDateFromResponse\<close>, with the clock reading \<open>now\<close> of \<open>new Date()\<close> as a
  parameter. \<open>None\<close> is \<open>undefined\<close>.
\<close>

definition extractDateFromResponse :: "int \<Rightarrow> date \<Rightarrow> string \<Rightarrow> date option" where
  "extractDateFromResponse tz now response =
     (case matchIn response of
        Some (ds, unit) \<Rightarrow>
          (let amount = parseInt ds in
           if unit = UnitHour then Some (addHours now amount)
           else Some (addDays now amount))
      | None \<Rightarrow>
          (case matchMinutes response of
             Some ds \<Rightarrow> Some (addMinutes now (parseInt ds))
           | None \<Rightarrow>
               (case find (\<lambda>day. str_includes response day) dayNames of
                  Some dayMatch \<Rightarrow>
                    (let targetDay = int (indexOf dayNames dayMatch);
                         currentDay = int (getDay tz now);
                         daysUntil = targetDay - currentDay;
                         daysUntil' = (if daysUntil \<le> 0 then daysUntil + 7 else daysUntil)
                     in Some (setHours9 tz (addDays now (nat daysUntil'))))
                | None \<Rightarrow> None)))"

text \<open>
  The three keyword tests of \<open>isValidSchedulingResponse\<close> and
  \<open>parseSchedulingResponse\<close>, which the source writes out in both functions.
\<close>

definition saysNow :: "string \<Rightarrow> bool" where
  "saysNow r = (str_includes r ''now'' \<or> str_includes r ''immediately''
                \<or> str_includes r ''send it'')"

definition saysTomorrow :: "string \<Rightarrow> bool" where
  "saysTomorrow r = (str_includes r ''tomorrow'' \<or> str_includes r ''morning'')"

definition saysNo :: "string \<Rightarrow> bool" where
  "saysNo r = (str_includes r ''no'' \<or> str_includes r ''never'')"

definition isValidSchedulingResponse :: "int \<Rightarrow> date \<Rightarrow> string \<Rightarrow> bool" where
  "isValidSchedulingResponse tz now response =
     (let lowerResponse = trim (toLowerCase response) in
      if saysNow lowerResponse then True
      else if saysTomorrow lowerResponse then True
      else if saysNo lowerResponse then True
      else (case extractDateFromResponse tz now lowerResponse of
              Some dateMatch \<Rightarrow> True
            | None \<Rightarrow> False))"

definition parseSchedulingResponse :: "int \<Rightarrow> date \<Rightarrow> string \<Rightarrow> ScheduleOptions" where
  "parseSchedulingResponse tz now response =
     (let lowerResponse = trim (toLowerCase response) in
      if saysNow lowerResponse then
        \<lparr>sendNow = True, sendTomorrow = False, customDate = None, noReminder = False\<rparr>
      else if saysTomorrow lowerResponse then
        \<lparr>sendNow = False, sendTomorrow = True, customDate = None, noReminder = False\<rparr>
      else if saysNo lowerResponse then
        \<lparr>sendNow = False, sendTomorrow = False, customDate = None, noReminder = True\<rparr>
      else (case extractDateFromResponse tz now lowerResponse of
              Some dateMatch \<Rightarrow>
                \<lparr>sendNow = False, sendTomorrow = False, customDate = Some dateMatch,
                 noReminder = False\<rparr>
            | None \<Rightarrow>
                \<lparr>sendNow = False, sendTomorrow = True, customDate = None,
                 noReminder = False\<rparr>))"

section \<open>The reminder scheduler (SchedulerService)\<close>

subsection \<open>Reminder identifiers\<close>

text \<open>Number-to-string conversion of an integer, as the template literal performs it.\<close>

definition digitChar :: "nat \<Rightarrow> char" where
  "digitChar n = ''0123456789'' ! (n mod 10)"

function digitsOf :: "nat \<Rightarrow> string" where
  "digitsOf n = (if n < 10 then [digitChar n] else digitsOf (n div 10) @ [digitChar n])"
  by pat_completeness auto
termination
  by (relation "measure (\<lambda>n. n)") auto

definition numberToString :: "int \<Rightarrow> string" where
  "numberToString i = (if i < 0 then CHR ''-'' # digitsOf (nat (- i)) else digitsOf (nat i))"

text \<open>\<open>generateReminderId\<close>, with the reading \<open>now\<close> of \<open>Date.now()\<close> as a parameter.\<close>

definition generateReminderId :: "date \<Rightarrow> int \<Rightarrow> string" where
  "generateReminderId now cId =
     ''reminder_'' @ numberToString cId @ ''_'' @ numberToString now"

subsection \<open>State\<close>

datatype status = Pending | Sent | Cancelled

text \<open>
  A task of the cron library is an object shared by the reminder that holds it and by
  the library that fires it, so tasks live in a store (a list; a handle is an index).
  A task carries the variables its callback closes over and whether it is started.
  The field \<open>task\<close> of a reminder is \<open>None\<close> for \<open>undefined\<close>.
\<close>

record cronTask =
  pattern :: "nat \<times> nat \<times> nat \<times> nat"
  running :: bool
  cbReminderId :: string
  cbContactId :: int
  cbMessage :: string

record ScheduledReminder =
  rid :: string
  contactId :: int
  message :: string
  scheduledFor :: date
  status :: status
  task :: "nat option"

text \<open>
  \<open>executed\<close> logs the calls of \<open>onReminderCallback(contactId, message)\<close>, oldest first;
  each entry also names the reminder id on whose behalf \<open>executeReminder\<close> ran.
  \<open>awaiting\<close> holds the handles of task callbacks that are suspended at
  \<open>await this.executeReminder(...)\<close>.
\<close>

record scheduler =
  reminders :: "string \<rightharpoonup> ScheduledReminder"
  tasks :: "cronTask list"
  executed :: "(string \<times> int \<times> string) list"
  awaiting :: "nat list"

definition newScheduler :: scheduler where
  "newScheduler = \<lparr>reminders = Map.empty, tasks = [], executed = [], awaiting = []\<rparr>"

subsection \<open>Calendar fields of a date\<close>

text \<open>
  \<open>getMinutes\<close>, \<open>getHours\<close>, \<open>getDate\<close> and \<open>getMonth\<close> in local time. The day of
  the month and the month (0 is January) come from the day count by the usual
  proleptic Gregorian conversion.
\<close>

definition getMinutes :: "int \<Rightarrow> date \<Rightarrow> nat" where
  "getMinutes tz d = nat (((d + tz) div msPerMinute) mod 60)"

definition getHours :: "int \<Rightarrow> date \<Rightarrow> nat" where
  "getHours tz d = nat (((d + tz) div msPerHour) mod 24)"

definition civilFromDays :: "int \<Rightarrow> int \<times> nat \<times> nat" where
  "civilFromDays z0 =
     (let z = z0 + 719468;
          era = z div 146097;
          doe = z - era * 146097;
          yoe = (doe - doe div 1460 + doe div 36524 - doe div 146096) div 365;
          doy = doe - (365 * yoe + yoe div 4 - yoe div 100);
          mp = (5 * doy + 2) div 153;
          d = doy - (153 * mp + 2) div 5 + 1;
          m = (if mp < 10 then mp + 3 else mp - 9);
          y = yoe + era * 400 + (if m \<le> 2 then 1 else 0)
      in (y, nat m, nat d))"

definition getDate :: "int \<Rightarrow> date \<Rightarrow> nat" where
  "getDate tz d = snd (snd (civilFromDays ((d + tz) div msPerDay)))"

definition getMonth :: "int \<Rightarrow> date \<Rightarrow> nat" where
  "getMonth tz d = fst (snd (civilFromDays ((d + tz) div msPerDay))) - 1"

text \<open>
  \<open>dateToCronPattern\<close>: minute, hour, day of the month and month (1 is January); the
  day-of-week field is \<open>*\<close> and the pattern has no year.
\<close>

definition dateToCronPattern :: "int \<Rightarrow> date \<Rightarrow> nat \<times> nat \<times> nat \<times> nat" where
  "dateToCronPattern tz d =
     (let minute = getMinutes tz d;
          hour = getHours tz d;
          day = getDate tz d;
          month = getMonth tz d + 1
      in (minute, hour, day, month))"

definition getTomorrowMorning :: "int \<Rightarrow> date \<Rightarrow> date" where
  "getTomorrowMorning tz now = setHours9 tz (addDays now 1)"

subsection \<open>Operations\<close>

text \<open>\<open>task?.stop()\<close> on the task a reminder holds, if any.\<close>

definition stopTask :: "nat option \<Rightarrow> cronTask list \<Rightarrow> cronTask list" where
  "stopTask t ts =
     (case t of
        None \<Rightarrow> ts
      | Some h \<Rightarrow> if h < length ts then ts[h := (ts ! h)\<lparr>running := False\<rparr>] else ts)"

text \<open>
  \<open>cancelReminder\<close>. The reminder object whose status becomes \<open>cancelled\<close> is deleted
  from the map in the same call and nothing else refers to it, so the model drops it.
\<close>

definition cancelReminder :: "scheduler \<Rightarrow> string \<Rightarrow> bool \<times> scheduler" where
  "cancelReminder st reminderId =
     (case reminders st reminderId of
        Some reminder \<Rightarrow>
          if status reminder = Pending then
            (True, st\<lparr>tasks := stopTask (task reminder) (tasks st),
                       reminders := (reminders st)(reminderId := None)\<rparr>)
          else (False, st)
      | None \<Rightarrow> (False, st))"

text \<open>
  \<open>executeReminder\<close> up to its \<open>await\<close>: the registered callback is invoked. The
  callback's own failure is caught and logged there, so nothing is raised.
\<close>

definition executeReminder :: "scheduler \<Rightarrow> string \<Rightarrow> int \<Rightarrow> string \<Rightarrow> scheduler" where
  "executeReminder st reminderId cId msg =
     st\<lparr>executed := executed st @ [(reminderId, cId, msg)]\<rparr>"

definition scheduleReminder ::
  "int \<Rightarrow> date \<Rightarrow> scheduler \<Rightarrow> int \<Rightarrow> string \<Rightarrow> date \<Rightarrow> bool \<Rightarrow> string \<times> scheduler" where
  "scheduleReminder tz now st cId msg schedFor immediate =
     (let reminderId = generateReminderId now cId;
          st1 = snd (cancelReminder st reminderId)
      in if immediate then (reminderId, executeReminder st1 reminderId cId msg)
         else
           (let cronPattern = dateToCronPattern tz schedFor;
                h = length (tasks st1);
                newTask = \<lparr>pattern = cronPattern, running = False,
                           cbReminderId = reminderId, cbContactId = cId, cbMessage = msg\<rparr>;
                reminder = \<lparr>rid = reminderId, contactId = cId, message = msg,
                            scheduledFor = schedFor, status = Pending, task = Some h\<rparr>;
                st2 = st1\<lparr>tasks := tasks st1 @ [newTask],
                          reminders := (reminders st1)(reminderId \<mapsto> reminder)\<rparr>
            in (reminderId, st2\<lparr>tasks := (tasks st2)[h := newTask\<lparr>running := True\<rparr>]\<rparr>)))"

text \<open>
  \<open>scheduleBasedOnPreference\<close>; the empty string is returned when no reminder is
  requested.
\<close>

definition scheduleBasedOnPreference ::
  "int \<Rightarrow> date \<Rightarrow> scheduler \<Rightarrow> int \<Rightarrow> string \<Rightarrow> ScheduleOptions \<Rightarrow> string \<times> scheduler" where
  "scheduleBasedOnPreference tz now st cId msg preference =
     (if sendNow preference then scheduleReminder tz now st cId msg now True
      else if sendTomorrow preference then
        scheduleReminder tz now st cId msg (getTomorrowMorning tz now) False
      else (case customDate preference of
              Some d \<Rightarrow> scheduleReminder tz now st cId msg d False
            | None \<Rightarrow>
                if noReminder preference then ([], st)
                else scheduleReminder tz now st cId msg (getTomorrowMorning tz now) False))"



text \<open>
  \<open>cleanupCompletedReminders\<close>: every entry whose status is not \<open>pending\<close> is
  deleted.
\<close>

definition cleanupCompletedReminders :: "scheduler \<Rightarrow> scheduler" where
  "cleanupCompletedReminders st =
     st\<lparr>reminders := (\<lambda>k. case reminders st k of
                              Some r \<Rightarrow> if status r \<noteq> Pending then None else Some r
                            | None \<Rightarrow> None)\<rparr>"

section \<open>The conversation controller (CoffeeNetworkingApp)\<close>

subsection \<open>Data\<close>

datatype followUpStatus = FollowUpPending | FollowUpScheduled | FollowUpSent | FollowUpCompleted

text \<open>
  \<open>Contact\<close> without its \<open>id\<close>; the fields \<open>lastInteraction\<close> and \<open>notes\<close>, which
  the controller never sets, are left out. The field \<open>context\<close> is named
  \<open>contextText\<close> here.
\<close>

record Contact =
  name :: string
  event :: string
  contextText :: "string option"
  metAt :: date
  phoneNumber :: "string option"
  email :: "string option"
  followUpStatus :: followUpStatus
  scheduledFollowUp :: "date option"

text \<open>The two shapes of \<open>Partial<Contact>\<close> the controller passes to \<open>updateContact\<close>.\<close>

record ContactUpdate =
  newFollowUpStatus :: followUpStatus
  newScheduledFollowUp :: "date option"

record ParsedMeetingMessage =
  parsedName :: string
  parsedEvent :: string
  parsedContext :: "string option"
  isValidMeeting :: bool

record AvailableTimeSlot =
  slotDate :: string
  startTime :: string
  endTime :: string
  dayOfWeek :: string

record InboundMessage =
  msgId :: string
  msgSender :: string
  msgText :: string
  msgDate :: date

text \<open>
  The contacts table: rows by id, and the last id the autoincrement column handed out.
\<close>

record database =
  rows :: "int \<rightharpoonup> Contact"
  lastID :: int

text \<open>
  The controller's fields, the contacts table and the scheduler it owns, the callbacks
  registered with \<open>setTimeout\<close> that have not run yet (due time and the sender each
  closes over), and the log of \<open>imessage.send(recipient, text)\<close>.
\<close>

record app =
  isProcessingMessage :: bool
  pendingFollowUpResponses :: "string \<rightharpoonup> bool"
  pendingContacts :: "string \<rightharpoonup> Contact"
  pendingDraftMessages :: "string \<rightharpoonup> string"
  lastProcessedMessageId :: "string option"
  timeouts :: "(date \<times> string) list"
  db :: database
  sched :: scheduler
  sentMessages :: "(string \<times> string) list"

definition newApp :: app where
  "newApp = \<lparr>isProcessingMessage = False, pendingFollowUpResponses = Map.empty,
              pendingContacts = Map.empty, pendingDraftMessages = Map.empty,
              lastProcessedMessageId = None, timeouts = [],
              db = \<lparr>rows = Map.empty, lastID = 0\<rparr>, sched = newScheduler,
              sentMessages = []\<rparr>"

text \<open>
  What the collaborators answer during one handler invocation: the clock (one reading
  for the whole invocation) and the time zone offset, whether the transport and the
  storage work or raise, the calendar's slots (\<open>None\<close>: it raises), the generated topic
  sentence (\<open>None\<close>: the call raises; \<open>Some None\<close>: it returns \<open>null\<close>), the trigger
  grammar parser and the contact-info extractor of \<open>MessageParser\<close>, the formatted
  contact summary (\<open>None\<close>: the query raises), the locale's date format and the
  configured phone number.
\<close>

record env =
  clock :: date
  tzOffset :: int
  sendWorks :: bool
  dbWorks :: bool
  calendarSlots :: "AvailableTimeSlot list option"
  topicAnswer :: "string option option"
  parseMessage :: "string \<Rightarrow> ParsedMeetingMessage"
  extractContactInfo :: "string \<Rightarrow> string option \<times> string option"
  summaryMessage :: "string option"
  toLocaleString :: "date \<Rightarrow> string"
  myPhone :: string

datatype outcome = Returned | Threw

subsection \<open>Storage and transport\<close>

text \<open>
  An optional string kept only if truthy (\<open>x || null\<close>, \<open>if (x) ...\<close>): the empty string
  counts as absent.
\<close>

definition orNull :: "string option \<Rightarrow> string option" where
  "orNull x = (case x of None \<Rightarrow> None | Some s \<Rightarrow> if s = [] then None else Some s)"

definition addContact :: "database \<Rightarrow> Contact \<Rightarrow> int \<times> database" where
  "addContact d contact =
     (let newId = lastID d + 1;
          row = contact\<lparr>contextText := orNull (contextText contact),
                        phoneNumber := orNull (phoneNumber contact),
                        email := orNull (email contact)\<rparr>
      in (newId, d\<lparr>rows := (rows d)(newId \<mapsto> row), lastID := newId\<rparr>))"

definition updateContact :: "database \<Rightarrow> int \<Rightarrow> ContactUpdate \<Rightarrow> database" where
  "updateContact d cId updates =
     (case rows d cId of
        None \<Rightarrow> d
      | Some row \<Rightarrow>
          d\<lparr>rows := (rows d)(cId \<mapsto>
               row\<lparr>followUpStatus := newFollowUpStatus updates,
                    scheduledFollowUp :=
                      (case newScheduledFollowUp updates of
                         Some t \<Rightarrow> Some t
                       | None \<Rightarrow> scheduledFollowUp row)\<rparr>)\<rparr>)"

definition imessageSend :: "env \<Rightarrow> app \<Rightarrow> string \<Rightarrow> string \<Rightarrow> outcome \<times> app" where
  "imessageSend e st recipient txt =
     (if sendWorks e then (Returned, st\<lparr>sentMessages := sentMessages st @ [(recipient, txt)]\<rparr>)
      else (Threw, st))"

definition sendErrorMessage :: "env \<Rightarrow> app \<Rightarrow> string \<Rightarrow> string \<Rightarrow> outcome \<times> app" where
  "sendErrorMessage e st sender err = imessageSend e st sender (''Error: '' @ err)"

subsection \<open>Message texts\<close>

definition generateSchedulingOptionsMessage :: "string \<Rightarrow> string" where
  \<open>generateSchedulingOptionsMessage contactName =
     ''When would you like me to remind you to send it?\<newline>\<newline>'' @
     ''Reply with:\<newline>'' @
     ''- "now" - Send it immediately\<newline>'' @
     ''- "tomorrow" - Remind me tomorrow morning\<newline>'' @
     ''- "Friday" - Remind me on a specific day\<newline>'' @
     ''- "in 2 hours" - Remind me in X hours\<newline>'' @
     ''- "in 5 minutes" - Remind me in X minutes\<newline>'' @
     ''- "no" - Don't set a reminder''\<close>

definition repromptMessage :: string where
  \<open>repromptMessage =
     ''Please respond with:\<newline>- "now" - Send it immediately\<newline>'' @
     ''- "tomorrow" - Remind me tomorrow morning\<newline>'' @
     ''- "in X minutes/hours" - Remind me later\<newline>'' @
     ''- "no" - Don't set a reminder\<newline>- "cancel" - Don't save contact''\<close>

definition helpMessage :: string where
  \<open>helpMessage =
     ''Wanna grab coffee?\<newline>\<newline>'' @
     ''To log someone you met, text me:\<newline>'' @
     ''"met John at networking event, he works in tech"\<newline>\<newline>'' @
     ''Commands:\<newline>'' @
     ''"summary" - List all contacts\<newline>'' @
     ''"cancel" - Cancel current interaction\<newline>\<newline>'' @
     ''Reminder scheduling:\<newline>'' @
     ''"now" - Send immediately\<newline>'' @
     ''"tomorrow" - Remind tomorrow at 9 AM\<newline>'' @
     ''"in 5 minutes" - For testing\<newline>'' @
     ''"no" - No reminder''\<close>

definition joinWith :: "string \<Rightarrow> string list \<Rightarrow> string" where
  "joinWith sep xs = (case xs of [] \<Rightarrow> [] | y # ys \<Rightarrow> foldl (\<lambda>acc x. acc @ sep @ x) y ys)"

definition hasMeaningfulContext :: "string option \<Rightarrow> bool" where
  "hasMeaningfulContext c =
     (case c of
        None \<Rightarrow> False
      | Some s \<Rightarrow>
          if s = [] \<or> length (trim s) < 5 then False
          else (let cleaned = toLowerCase (trim s)
                in length cleaned \<ge> 10 \<and> (str_includes cleaned '' '' \<or> length cleaned > 15)))"

definition createUnifiedMessage :: "string \<Rightarrow> string \<Rightarrow> string option \<Rightarrow> string \<Rightarrow> string" where
  "createUnifiedMessage contactName ev topicSentence timeSlotText =
     ''Hi '' @ contactName @ ''! It was great meeting you at '' @ ev @
     ''. Would you like to grab coffee sometime?'' @
     (case topicSentence of
        None \<Rightarrow> []
      | Some t \<Rightarrow> if t = [] then [] else '' '' @ t) @
     '' '' @ timeSlotText @ ''. Let me know what would work!''"

definition formatSuggestionMessage :: "Contact \<Rightarrow> string \<Rightarrow> string" where
  \<open>formatSuggestionMessage contact draftMessage =
     ''You met '' @ name contact @ '' at '' @ event contact @ ''.\<newline>\<newline>'' @
     ''Draft message:\<newline>"'' @ draftMessage @ ''"\<newline>\<newline>'' @
     generateSchedulingOptionsMessage (name contact)\<close>

definition reminderText :: "Contact \<Rightarrow> string \<Rightarrow> string" where
  \<open>reminderText contact draftMessage =
     ''Time to follow up with '' @ name contact @
     ''. Here's your draft message:\<newline>\<newline>"'' @ draftMessage @
     ''"\<newline>\<newline>Ready to send?''\<close>

definition schedulingMessage :: "env \<Rightarrow> Contact \<Rightarrow> string \<Rightarrow> ScheduleOptions \<Rightarrow> string" where
  \<open>schedulingMessage e contact draftMessage schedulePreference =
     (if sendNow schedulePreference then
        ''Here's your message for '' @ name contact @ '':\<newline>\<newline>"'' @ draftMessage @
        ''"\<newline>\<newline>Copy and send when ready''
      else if sendTomorrow schedulePreference then
        ''I'll remind you tomorrow morning (9:00 AM) to follow up with '' @ name contact
      else (case customDate schedulePreference of
              Some d \<Rightarrow> ''Reminder set for '' @ name contact @ '' at '' @ toLocaleString e d
            | None \<Rightarrow> ''Reminder set for '' @ name contact))\<close>

definition errorResponse :: "string \<Rightarrow> string" where
  \<open>errorResponse messageText =
     ''Sorry, I had trouble processing your message "'' @ messageText @ ''". '' @
     ''Please try the format: "met [person] at [event]" '' @
     ''For example: "met Benjamin Franklin at Penn"''\<close>

subsection \<open>Pending interactions\<close>

definition clearPendingData :: "app \<Rightarrow> string \<Rightarrow> app" where
  "clearPendingData st sender =
     st\<lparr>pendingFollowUpResponses := (pendingFollowUpResponses st)(sender := None),
        pendingContacts := (pendingContacts st)(sender := None),
        pendingDraftMessages := (pendingDraftMessages st)(sender := None)\<rparr>"

text \<open>
  The callback of the \<open>k\<close>-th outstanding \<open>setTimeout\<close> runs; the timer subsystem runs
  it at some clock reading \<open>now\<close> not before its due time.
\<close>

definition timeoutFires :: "date \<Rightarrow> app \<Rightarrow> nat \<Rightarrow> app" where
  "timeoutFires now st k =
     (if k < length (timeouts st) \<and> fst (timeouts st ! k) \<le> now then
        st\<lparr>timeouts := take k (timeouts st) @ drop (Suc k) (timeouts st),
           pendingFollowUpResponses :=
             (pendingFollowUpResponses st)(snd (timeouts st ! k) := None)\<rparr>
      else st)"

text \<open>
  \<open>generateFollowUpSuggestions\<close>. The calendar and the topic generator fall back
  inside their own \<open>try\<close>; a failing send lands in the outer \<open>catch\<close>, whose error
  message goes through the same transport.
\<close>

definition generateFollowUpSuggestions :: "env \<Rightarrow> app \<Rightarrow> string \<Rightarrow> Contact \<Rightarrow> outcome \<times> app" where
  \<open>generateFollowUpSuggestions e st sender contact =
     (let timeSlotText =
            (case calendarSlots e of
               None \<Rightarrow> ''I have some time to meet this week''
             | Some availableSlots \<Rightarrow>
                 if length availableSlots > 0 then
                   ''I'm free '' @ joinWith '', ''
                      (map (\<lambda>slot. dayOfWeek slot @ '' '' @ startTime slot)
                         (take 3 availableSlots))
                 else ''I have some time to meet this week'');
          topicSentence =
            (if hasMeaningfulContext (contextText contact) then
               (case topicAnswer e of None \<Rightarrow> None | Some t \<Rightarrow> t)
             else None);
          draftMessage = createUnifiedMessage (name contact) (event contact) topicSentence
                           timeSlotText;
          st1 = st\<lparr>pendingDraftMessages := (pendingDraftMessages st)(sender \<mapsto> draftMessage)\<rparr>;
          suggestionMessage = formatSuggestionMessage contact draftMessage
      in case imessageSend e st1 sender suggestionMessage of
           (Returned, st2) \<Rightarrow>
             (Returned,
              st2\<lparr>pendingFollowUpResponses := (pendingFollowUpResponses st2)(sender \<mapsto> True),
                  timeouts := timeouts st2 @ [(clock e + 10 * 60 * 1000, sender)]\<rparr>)
         | (Threw, st2) \<Rightarrow>
             sendErrorMessage e st2 sender
               (''I saved the contact but had trouble generating suggestions. '' @
                ''Try asking for "summary" to see your contacts.''))\<close>

text \<open>
  The contact record \<open>handleMeetingMessage\<close> builds from the parsed trigger; optional
  fields are set only from truthy values.
\<close>

definition meetingContact :: "env \<Rightarrow> ParsedMeetingMessage \<Rightarrow> Contact" where
  "meetingContact e parsed =
     (let contactInfo =
            extractContactInfo e (case parsedContext parsed of None \<Rightarrow> [] | Some c \<Rightarrow> c)
      in \<lparr>name = parsedName parsed, event = parsedEvent parsed,
          contextText = orNull (parsedContext parsed),
          metAt = clock e,
          phoneNumber = orNull (fst contactInfo),
          email = orNull (snd contactInfo),
          followUpStatus = FollowUpPending,
          scheduledFollowUp = None\<rparr>)"

definition handleMeetingMessage ::
  "env \<Rightarrow> app \<Rightarrow> string \<Rightarrow> ParsedMeetingMessage \<Rightarrow> outcome \<times> app" where
  "handleMeetingMessage e st sender parsed =
     (let contact = meetingContact e parsed;
          st1 = st\<lparr>pendingContacts := (pendingContacts st)(sender \<mapsto> contact)\<rparr>
      in case generateFollowUpSuggestions e st1 sender contact of
           (Returned, st2) \<Rightarrow> (Returned, st2)
         | (Threw, st2) \<Rightarrow>
             sendErrorMessage e st2 sender
               ''Sorry, I had trouble processing that meeting. Please try again.'')"

subsection \<open>Resolving a pending interaction\<close>

text \<open>
  The \<open>try\<close> block of \<open>handleSchedulingResponse\<close>. A falsy contact or draft (absent, or
  the empty draft text) is the missing-data case. Every \<open>await\<close> that can raise is a
  branch ending in \<open>Threw\<close> with the state reached so far.
\<close>

definition schedulingResponseBody :: "env \<Rightarrow> app \<Rightarrow> string \<Rightarrow> string \<Rightarrow> outcome \<times> app" where
  "schedulingResponseBody e st sender response =
     (case (pendingContacts st sender,
            case pendingDraftMessages st sender of
              None \<Rightarrow> None
            | Some d \<Rightarrow> if d = [] then None else Some d) of
        (Some contact, Some draftMessage) \<Rightarrow>
          if trim (toLowerCase response) = ''cancel'' then
            (case imessageSend e st sender ''Cancelled. Contact not saved.'' of
               (Returned, st1) \<Rightarrow> (Returned, clearPendingData st1 sender)
             | (Threw, st1) \<Rightarrow> (Threw, st1))
          else
            (let schedulePreference = parseSchedulingResponse (tzOffset e) (clock e) response
             in if \<not> isValidSchedulingResponse (tzOffset e) (clock e) response then
                  imessageSend e st sender repromptMessage
                else if \<not> dbWorks e then (Threw, st)
                else
                  (let (cId, d1) = addContact (db st) contact;
                       st1 = st\<lparr>db := d1\<rparr>
                   in if noReminder schedulePreference then
                        (let st2 = st1\<lparr>db := updateContact (db st1) cId
                                     \<lparr>newFollowUpStatus = FollowUpCompleted,
                                      newScheduledFollowUp = None\<rparr>\<rparr>
                         in case imessageSend e st2 sender
                                   (name contact @ '' saved with no reminder set.'') of
                              (Returned, st3) \<Rightarrow> (Returned, clearPendingData st3 sender)
                            | (Threw, st3) \<Rightarrow> (Threw, st3))
                      else
                        (let (reminderId, sch) =
                               scheduleBasedOnPreference (tzOffset e) (clock e) (sched st1) cId
                                 (reminderText contact draftMessage) schedulePreference;
                             st2 = st1\<lparr>sched := sch\<rparr>
                         in if reminderId \<noteq> [] then
                              (case imessageSend e st2 sender
                                      (schedulingMessage e contact draftMessage
                                         schedulePreference) of
                                 (Returned, st3) \<Rightarrow>
                                   (Returned,
                                    clearPendingData
                                      (st3\<lparr>db := updateContact (db st3) cId
                                         \<lparr>newFollowUpStatus =
                                            (if sendNow schedulePreference then FollowUpSent
                                             else FollowUpScheduled),
                                          newScheduledFollowUp =
                                            customDate schedulePreference\<rparr>\<rparr>)
                                      sender)
                               | (Threw, st3) \<Rightarrow> (Threw, st3))
                            else (Returned, clearPendingData st2 sender))))
      | _ \<Rightarrow>
          (case sendErrorMessage e st sender ''Contact data not found. Please try again.'' of
             (Returned, st1) \<Rightarrow> (Returned, clearPendingData st1 sender)
           | (Threw, st1) \<Rightarrow> (Threw, st1)))"

text \<open>
  \<open>handleSchedulingResponse\<close>: the guard on the awaiting flag, the \<open>try\<close> block and the
  \<open>catch\<close>, which reports the failure and clears the sender's pending data.
\<close>

definition handleSchedulingResponse :: "env \<Rightarrow> app \<Rightarrow> string \<Rightarrow> string \<Rightarrow> outcome \<times> app" where
  "handleSchedulingResponse e st sender response =
     (if pendingFollowUpResponses st sender = None then (Returned, st)
      else
        (case schedulingResponseBody e st sender response of
           (Returned, st1) \<Rightarrow> (Returned, st1)
         | (Threw, st1) \<Rightarrow>
             (case sendErrorMessage e st1 sender
                     ''Sorry, I had trouble scheduling that reminder.'' of
                (Returned, st2) \<Rightarrow> (Returned, clearPendingData st2 sender)
              | (Threw, st2) \<Rightarrow> (Threw, st2))))"

subsection \<open>Commands and routing\<close>

definition handleCancelCommand :: "env \<Rightarrow> app \<Rightarrow> string \<Rightarrow> outcome \<times> app" where
  "handleCancelCommand e st sender =
     (let hadPending = (pendingFollowUpResponses st sender \<noteq> None);
          st1 = (clearPendingData st sender)\<lparr>isProcessingMessage := False\<rparr>
      in case (if hadPending then imessageSend e st1 sender ''Cancelled. Contact not saved.''
               else imessageSend e st1 sender ''Ready for new contacts!'') of
           (Returned, st2) \<Rightarrow> (Returned, st2)
         | (Threw, st2) \<Rightarrow> sendErrorMessage e st2 sender ''Error processing cancel command.'')"

definition handleSummaryRequest :: "env \<Rightarrow> app \<Rightarrow> string \<Rightarrow> outcome \<times> app" where
  "handleSummaryRequest e st sender =
     (case (case summaryMessage e of
              None \<Rightarrow> (Threw, st)
            | Some summaryText \<Rightarrow> imessageSend e st sender summaryText) of
        (Returned, st1) \<Rightarrow> (Returned, st1)
      | (Threw, st1) \<Rightarrow>
          sendErrorMessage e st1 sender ''Sorry, I had trouble getting your contact summary.'')"

definition sendHelpMessage :: "env \<Rightarrow> app \<Rightarrow> string \<Rightarrow> outcome \<times> app" where
  "sendHelpMessage e st sender = imessageSend e st sender helpMessage"

definition handleMessage :: "env \<Rightarrow> app \<Rightarrow> InboundMessage \<Rightarrow> outcome \<times> app" where
  "handleMessage e st msg =
     (let messageText = trim (msgText msg) in
      if pendingFollowUpResponses st (msgSender msg) \<noteq> None then
        handleSchedulingResponse e st (msgSender msg) messageText
      else if trim (toLowerCase messageText) = ''cancel'' then
        handleCancelCommand e st (msgSender msg)
      else if str_includes (toLowerCase messageText) ''summary''
              \<or> str_includes (toLowerCase messageText) ''recent contacts'' then
        handleSummaryRequest e st (msgSender msg)
      else
        (let parsed = parseMessage e messageText in
         if isValidMeeting parsed then handleMeetingMessage e st (msgSender msg) parsed
         else sendHelpMessage e st (msgSender msg)))"

text \<open>
  \<open>handleDetectedMessage\<close> swallows whatever \<open>handleMessage\<close> raises, after trying to
  send an error response to the configured number.
\<close>

definition handleDetectedMessage :: "env \<Rightarrow> app \<Rightarrow> InboundMessage \<Rightarrow> app" where
  "handleDetectedMessage e st msg =
     (let messageText = trim (msgText msg) in
      case handleMessage e st (msg\<lparr>msgText := messageText\<rparr>) of
        (Returned, st1) \<Rightarrow> st1
      | (Threw, st1) \<Rightarrow> snd (imessageSend e st1 (myPhone e) (errorResponse messageText)))"

text \<open>
  \<open>sendFollowUpReminder\<close>, the callback the scheduler is constructed with: the reminder
  is sent to the configured number if the contact is still stored; failures are caught.
\<close>

definition sendFollowUpReminder :: "env \<Rightarrow> app \<Rightarrow> int \<Rightarrow> string \<Rightarrow> app" where
  "sendFollowUpReminder e st cId msg =
     (if \<not> dbWorks e then st
      else (case rows (db st) cId of
              None \<Rightarrow> st
            | Some contact \<Rightarrow> snd (imessageSend e st (myPhone e) msg)))"

text \<open>The three per-sender maps that together hold the pending interactions.\<close>

definition pendingMaps ::
  "app \<Rightarrow> (string \<rightharpoonup> bool) \<times> (string \<rightharpoonup> Contact) \<times> (string \<rightharpoonup> string)" where
  "pendingMaps st = (pendingFollowUpResponses st, pendingContacts st, pendingDraftMessages st)"

subsection \<open>The polling loop\<close>

text \<open>
  \<open>checkForNewMessages\<close> is an asynchronous function started every three seconds. An
  activation of it is suspended at \<open>await this.imessage.getMessages(...)\<close>, or inside
  \<open>await this.handleDetectedMessage(latestMessage)\<close> with the message it picked (and
  the collaborators' answers for this handler invocation), or it is over. Activations
  are kept in a list so that each keeps its index.
\<close>

datatype activation = AwaitingMessages | Handling env InboundMessage | Finished

definition isAwaiting :: "activation \<Rightarrow> bool" where
  "isAwaiting a = (case a of AwaitingMessages \<Rightarrow> True | _ \<Rightarrow> False)"

definition isHandling :: "activation \<Rightarrow> bool" where
  "isHandling a = (case a of Handling e msg \<Rightarrow> True | _ \<Rightarrow> False)"

record runtime =
  appState :: app
  activations :: "activation list"

definition newRuntime :: runtime where
  "newRuntime = \<lparr>appState = newApp, activations = []\<rparr>"

text \<open>
  A timer tick starts an activation: it returns at once if the flag is set, and
  otherwise suspends waiting for the messages.
\<close>

definition pollTick :: "runtime \<Rightarrow> runtime" where
  "pollTick rt =
     (if isProcessingMessage (appState rt) then rt
      else rt\<lparr>activations := activations rt @ [AwaitingMessages]\<rparr>)"

text \<open>\<open>handleMessage\<close> sends the message to \<open>handleCancelCommand\<close>.\<close>

definition routesToCancel :: "app \<Rightarrow> InboundMessage \<Rightarrow> bool" where
  "routesToCancel st msg =
     (pendingFollowUpResponses st (msgSender msg) = None
      \<and> trim (toLowerCase (trim (trim (msgText msg)))) = ''cancel'')"

text \<open>\<open>handleMessage\<close> sends the message to \<open>handleMeetingMessage\<close>.\<close>

definition routesToMeeting :: "env \<Rightarrow> app \<Rightarrow> InboundMessage \<Rightarrow> bool" where
  "routesToMeeting e st msg =
     (let messageText = trim (trim (msgText msg)) in
      pendingFollowUpResponses st (msgSender msg) = None
      \<and> trim (toLowerCase messageText) \<noteq> ''cancel''
      \<and> \<not> (str_includes (toLowerCase messageText) ''summary''
            \<or> str_includes (toLowerCase messageText) ''recent contacts'')
      \<and> isValidMeeting (parseMessage e messageText))"

text \<open>
  What \<open>handleDetectedMessage\<close> does to the state before its first suspension: the
  cancel command clears the sender's pending data and resets the processing flag
  before it sends its reply; a trigger stores the draft contact before the calendar is
  asked; every other path suspends first.
\<close>

definition handlerPrefix :: "env \<Rightarrow> app \<Rightarrow> InboundMessage \<Rightarrow> app" where
  "handlerPrefix e st msg =
     (if routesToCancel st msg then
        (clearPendingData st (msgSender msg))\<lparr>isProcessingMessage := False\<rparr>
      else if routesToMeeting e st msg then
        st\<lparr>pendingContacts := (pendingContacts st)
              (msgSender msg \<mapsto> meetingContact e (parseMessage e (trim (trim (msgText msg)))))\<rparr>
      else st)"

text \<open>
  The messages arrive for activation \<open>i\<close> (a missing result acts like the empty
  list). The newest own message with text is picked if it is not the last processed
  one and is less than thirty seconds old: the flag is set and the handler runs up to
  its first suspension.
\<close>

definition messagesArrive :: "env \<Rightarrow> runtime \<Rightarrow> nat \<Rightarrow> InboundMessage list \<Rightarrow> runtime" where
  "messagesArrive e rt i messages =
     (if i < length (activations rt) \<and> isAwaiting (activations rt ! i) then
        (let st = appState rt;
             recentSelfMessages =
               filter (\<lambda>msg. msgSender msg = myPhone e \<and> msgText msg \<noteq> []
                             \<and> trim (msgText msg) \<noteq> []) messages
         in case recentSelfMessages of
              [] \<Rightarrow> rt\<lparr>activations := (activations rt)[i := Finished]\<rparr>
            | latestMessage # older \<Rightarrow>
                if Some (msgId latestMessage) \<noteq> lastProcessedMessageId st
                   \<and> clock e - msgDate latestMessage < 30000 then
                  rt\<lparr>appState := handlerPrefix e (st\<lparr>isProcessingMessage := True\<rparr>)
                                    latestMessage,
                     activations := (activations rt)[i := Handling e latestMessage]\<rparr>
                else if lastProcessedMessageId st = None then
                  rt\<lparr>appState := st\<lparr>lastProcessedMessageId := Some (msgId latestMessage)\<rparr>,
                     activations := (activations rt)[i := Finished]\<rparr>
                else rt\<lparr>activations := (activations rt)[i := Finished]\<rparr>)
      else rt)"

text \<open>\<open>getMessages\<close> raises for activation \<open>i\<close>: the error is logged.\<close>

definition messagesFail :: "runtime \<Rightarrow> nat \<Rightarrow> runtime" where
  "messagesFail rt i =
     (if i < length (activations rt) \<and> isAwaiting (activations rt ! i) then
        rt\<lparr>activations := (activations rt)[i := Finished]\<rparr>
      else rt)"

text \<open>
  The handler of activation \<open>i\<close> returns: its effects are those of
  \<open>handleDetectedMessage\<close> on the state at that moment (the steps of one handler are not
  interleaved with others any finer than prefix and rest), the message is recorded as
  processed and the \<open>finally\<close> block resets the flag.
\<close>

definition handlerReturns :: "runtime \<Rightarrow> nat \<Rightarrow> runtime" where
  "handlerReturns rt i =
     (if i < length (activations rt) then
        (case activations rt ! i of
           Handling e latestMessage \<Rightarrow>
             rt\<lparr>appState := (handleDetectedMessage e (appState rt) latestMessage)
                    \<lparr>lastProcessedMessageId := Some (msgId latestMessage),
                     isProcessingMessage := False\<rparr>,
                activations := (activations rt)[i := Finished]\<rparr>
         | _ \<Rightarrow> rt)
      else rt)"

datatype event =
    PollTick
  | MessagesArrive env nat "InboundMessage list"
  | MessagesFail nat
  | HandlerReturns nat

fun step :: "runtime \<Rightarrow> event \<Rightarrow> runtime" where
  "step rt PollTick = pollTick rt"
| "step rt (MessagesArrive e i messages) = messagesArrive e rt i messages"
| "step rt (MessagesFail i) = messagesFail rt i"
| "step rt (HandlerReturns i) = handlerReturns rt i"

definition run :: "runtime \<Rightarrow> event list \<Rightarrow> runtime" where
  "run rt evs = foldl step rt evs"

text \<open>The number of inbound messages being processed.\<close>

definition handlingCount :: "runtime \<Rightarrow> nat" where
  "handlingCount rt = length (filter isHandling (activations rt))"

definition awaitingCount :: "runtime \<Rightarrow> nat" where
  "awaitingCount rt = length (filter isAwaiting (activations rt))"

text \<open>
  Serialized: at most one activation is under way, and the flag is set exactly while
  one is handling a message.
\<close>

definition serialized :: "runtime \<Rightarrow> bool" where
  "serialized rt =
     (awaitingCount rt + handlingCount rt \<le> 1
      \<and> (isProcessingMessage (appState rt) \<longleftrightarrow> handlingCount rt = 1))"

text \<open>
  The message activation \<open>i\<close> would pick from \<open>messages\<close> is a cancel command with no
  interaction pending.
\<close>

definition picksCancel :: "env \<Rightarrow> runtime \<Rightarrow> InboundMessage list \<Rightarrow> bool" where
  "picksCancel e rt messages =
     (case filter (\<lambda>msg. msgSender msg = myPhone e \<and> msgText msg \<noteq> []
                         \<and> trim (msgText msg) \<noteq> []) messages of
        [] \<Rightarrow> False
      | latestMessage # older \<Rightarrow>
          Some (msgId latestMessage) \<noteq> lastProcessedMessageId (appState rt)
          \<and> clock e - msgDate latestMessage < 30000
          \<and> routesToCancel (appState rt) latestMessage)"

text \<open>
  A run in which no timer tick comes while another activation still waits for its
  messages, and in which no cancel command is picked while no interaction is pending.
\<close>

fun admissible :: "runtime \<Rightarrow> event list \<Rightarrow> bool" where
  "admissible rt [] = True"
| "admissible rt (PollTick # evs) =
     (awaitingCount rt = 0 \<and> admissible (pollTick rt) evs)"
| "admissible rt (MessagesArrive e i messages # evs) =
     (\<not> picksCancel e rt messages \<and> admissible (messagesArrive e rt i messages) evs)"
| "admissible rt (ev # evs) = admissible (step rt ev) evs"

section \<open>Example states\<close>




text \<open>
  An environment in which every collaborator works: an empty calendar, no topic
  sentence, no contact details found, and a parser answering as \<open>MessageParser\<close> does
  on the three trigger texts used below. The clock reading is the parameter.
\<close>

definition demoParse :: "string \<Rightarrow> ParsedMeetingMessage" where
  "demoParse txt =
     (if txt = ''met Sarah at conference'' then
        \<lparr>parsedName = ''Sarah'', parsedEvent = ''conference'', parsedContext = None,
         isValidMeeting = True\<rparr>
      else if txt = ''met Bob at meetup'' then
        \<lparr>parsedName = ''Bob'', parsedEvent = ''meetup'', parsedContext = None,
         isValidMeeting = True\<rparr>
      else if txt = ''met Carol at lunch'' then
        \<lparr>parsedName = ''Carol'', parsedEvent = ''lunch'', parsedContext = None,
         isValidMeeting = True\<rparr>
      else \<lparr>parsedName = [], parsedEvent = [], parsedContext = None,
            isValidMeeting = False\<rparr>)"

definition demoEnv :: "date \<Rightarrow> env" where
  "demoEnv t =
     \<lparr>clock = t, tzOffset = 0, sendWorks = True, dbWorks = True, calendarSlots = Some [],
      topicAnswer = Some None, parseMessage = demoParse,
      extractContactInfo = (\<lambda>c. (None, None)), summaryMessage = Some ''Your people list'',
      toLocaleString = numberToString, myPhone = ''+15550100''\<rparr>"

definition inbound :: "string \<Rightarrow> string \<Rightarrow> date \<Rightarrow> InboundMessage" where
  "inbound i txt t = \<lparr>msgId = i, msgSender = ''+15550100'', msgText = txt, msgDate = t\<rparr>"

text \<open>The controller after the trigger "met Sarah at conference" handled at reading 0.\<close>

definition afterTrigger :: app where
  "afterTrigger =
     handleDetectedMessage (demoEnv 0) newApp (inbound ''m1'' ''met Sarah at conference'' 0)"

text \<open>
  A longer run for one sender: the first interaction is declined at reading 1000, a
  second trigger arrives at 2000, the first interaction's timer runs at 600000, a third
  trigger arrives at 601000, and the second interaction's timer runs at 602000.
\<close>

definition afterDecline :: app where
  "afterDecline = handleDetectedMessage (demoEnv 1000) afterTrigger (inbound ''m2'' ''no'' 1000)"

definition afterSecondTrigger :: app where
  "afterSecondTrigger =
     handleDetectedMessage (demoEnv 2000) afterDecline (inbound ''m3'' ''met Bob at meetup'' 2000)"

definition afterFirstTimeout :: app where
  "afterFirstTimeout = timeoutFires 600000 afterSecondTrigger 0"

definition afterThirdTrigger :: app where
  "afterThirdTrigger =
     handleDetectedMessage (demoEnv 601000) afterFirstTimeout
       (inbound ''m4'' ''met Carol at lunch'' 601000)"

definition afterSecondTimeout :: app where
  "afterSecondTimeout = timeoutFires 602000 afterThirdTrigger 0"

text \<open>
  The polling loop on a cancel command sent while nothing is pending: a tick, the
  messages arrive and the command is picked, a second tick while the reply is being
  sent, and the messages arrive again.
\<close>

definition cancelTwice :: "event list" where
  "cancelTwice =
     [PollTick, MessagesArrive (demoEnv 1000) 0 [inbound ''m1'' ''cancel'' 900],
      PollTick, MessagesArrive (demoEnv 4000) 1 [inbound ''m1'' ''cancel'' 900]]"

text \<open>The polling loop on a trigger: a tick, the trigger is picked, its handler returns.\<close>

definition triggerOnce :: "event list" where
  "triggerOnce =
     [PollTick, MessagesArrive (demoEnv 1000) 0 [inbound ''m1'' ''met Sarah at conference'' 900],
      PollTick, HandlerReturns 0, PollTick]"

section \<open>Properties of the response classifier\<close>













section \<open>Properties of the reminder scheduler\<close>













text \<open>
  The cleanup sweep invokes nothing and starts no task: it leaves the tasks, the
  execution log and the suspended callbacks alone and keeps exactly the \<open>Pending\<close>
  entries.
\<close>

lemma cleanup_frame:
  "tasks (cleanupCompletedReminders st) = tasks st
   \<and> executed (cleanupCompletedReminders st) = executed st
   \<and> awaiting (cleanupCompletedReminders st) = awaiting st
   \<and> (reminders (cleanupCompletedReminders st) k = Some r
        \<longleftrightarrow> reminders st k = Some r \<and> status r = Pending)"
  by (auto simp: cleanupCompletedReminders_def split: option.splits)


section \<open>Properties of the conversation controller\<close>

lemma noReminder_parse:
  "noReminder (parseSchedulingResponse tz now r) \<longleftrightarrow>
     \<not> saysNow (trim (toLowerCase r)) \<and> \<not> saysTomorrow (trim (toLowerCase r))
     \<and> saysNo (trim (toLowerCase r))"
  by (simp add: parseSchedulingResponse_def Let_def split: option.split)

lemma saysNo_valid:
  "saysNo (trim (toLowerCase r)) \<Longrightarrow> isValidSchedulingResponse tz now r"
  by (simp add: isValidSchedulingResponse_def Let_def)

lemma cancel_not_no: "\<not> saysNo ''cancel''"
  by (simp add: saysNo_def)


lemma afterTrigger_eq:
  "afterTrigger =
     newApp\<lparr>pendingContacts := [''+15550100'' \<mapsto>
               \<lparr>name = ''Sarah'', event = ''conference'', contextText = None, metAt = 0,
                phoneNumber = None, email = None, followUpStatus = FollowUpPending,
                scheduledFollowUp = None\<rparr>],
            pendingDraftMessages := [''+15550100'' \<mapsto>
               createUnifiedMessage ''Sarah'' ''conference'' None
                 ''I have some time to meet this week''],
            sentMessages := [(''+15550100'',
               formatSuggestionMessage
                 \<lparr>name = ''Sarah'', event = ''conference'', contextText = None, metAt = 0,
                  phoneNumber = None, email = None, followUpStatus = FollowUpPending,
                  scheduledFollowUp = None\<rparr>
                 (createUnifiedMessage ''Sarah'' ''conference'' None
                    ''I have some time to meet this week''))],
            pendingFollowUpResponses := [''+15550100'' \<mapsto> True],
            timeouts := [(600000, ''+15550100'')]\<rparr>"
proof -
  have t: "trim ''met Sarah at conference'' = ''met Sarah at conference''"
    by (simp add: trim_def isSpace_def)
  have c: "trim (toLowerCase ''met Sarah at conference'') \<noteq> ''cancel''"
    by (simp add: trim_def isSpace_def toLowerCase_def lowerChar_def)
  have s: "\<not> str_includes (toLowerCase ''met Sarah at conference'') ''summary''"
    "\<not> str_includes (toLowerCase ''met Sarah at conference'') ''recent contacts''"
    by (simp_all add: toLowerCase_def lowerChar_def)
  show ?thesis
    by (simp add: afterTrigger_def inbound_def handleDetectedMessage_def handleMessage_def
          Let_def t c s newApp_def demoEnv_def demoParse_def handleMeetingMessage_def
          meetingContact_def
          generateFollowUpSuggestions_def imessageSend_def orNull_def
          hasMeaningfulContext_def)
qed

lemma afterTrigger_fields:
  "pendingFollowUpResponses afterTrigger ''+15550100'' = Some True"
  "pendingContacts afterTrigger ''+15550100'' =
     Some \<lparr>name = ''Sarah'', event = ''conference'', contextText = None, metAt = 0,
           phoneNumber = None, email = None, followUpStatus = FollowUpPending,
           scheduledFollowUp = None\<rparr>"
  "pendingDraftMessages afterTrigger ''+15550100'' =
     Some (createUnifiedMessage ''Sarah'' ''conference'' None
             ''I have some time to meet this week'')"
  "timeouts afterTrigger = [(600000, ''+15550100'')]"
  "db afterTrigger = \<lparr>rows = Map.empty, lastID = 0\<rparr>"
  "sched afterTrigger = newScheduler"
  by (simp_all add: afterTrigger_eq newApp_def)

lemma demoDraft_nonempty:
  "createUnifiedMessage ''Sarah'' ''conference'' None ''I have some time to meet this week''
     \<noteq> []"
  by (simp add: createUnifiedMessage_def)

lemma demoEnv_fields:
  "clock (demoEnv t) = t" "tzOffset (demoEnv t) = 0" "sendWorks (demoEnv t)"
  "dbWorks (demoEnv t)"
  by (simp_all add: demoEnv_def)

text \<open>
  Claim C9. When the sender is awaiting a reply, the draft contact and the draft message
  are stored, storage and transport work, and the reply classifies as NoReminder, then
  \<open>handleSchedulingResponse\<close> returns normally; the draft contact is a new row of the
  contacts table under the next id, with status \<open>completed\<close>, and no other row changes;
  the scheduler is untouched (no reminder is created, nothing is executed); the
  confirmation "<name> saved with no reminder set." is the one message sent; and the
  sender's flag, draft contact and draft message are gone.
\<close>

theorem noReminder_reply_persists_completed:
  assumes "pendingFollowUpResponses st sender \<noteq> None"
    and "pendingContacts st sender = Some contact"
    and "pendingDraftMessages st sender = Some draftMessage"
    and "draftMessage \<noteq> []"
    and "noReminder (parseSchedulingResponse (tzOffset e) (clock e) response)"
    and "dbWorks e"
    and "sendWorks e"
    and "st' = snd (handleSchedulingResponse e st sender response)"
  shows "fst (handleSchedulingResponse e st sender response) = Returned
     \<and> rows (db st') (lastID (db st) + 1) =
         Some (contact\<lparr>contextText := orNull (contextText contact),
                        phoneNumber := orNull (phoneNumber contact),
                        email := orNull (email contact),
                        followUpStatus := FollowUpCompleted\<rparr>)
     \<and> (\<forall>k. k \<noteq> lastID (db st) + 1 \<longrightarrow> rows (db st') k = rows (db st) k)
     \<and> sched st' = sched st
     \<and> sentMessages st' =
         sentMessages st @ [(sender, name contact @ '' saved with no reminder set.'')]
     \<and> pendingFollowUpResponses st' sender = None
     \<and> pendingContacts st' sender = None
     \<and> pendingDraftMessages st' sender = None"
proof -
  from assms(5) have no: "saysNo (trim (toLowerCase response))"
    by (simp add: noReminder_parse)
  then have valid: "isValidSchedulingResponse (tzOffset e) (clock e) response"
    by (rule saysNo_valid)
  from no cancel_not_no have nc: "trim (toLowerCase response) \<noteq> ''cancel''"
    by auto
  show ?thesis
    using assms(1-4,6,7) valid nc assms(5)
    by (simp add: assms(8) handleSchedulingResponse_def schedulingResponseBody_def
          imessageSend_def addContact_def updateContact_def clearPendingData_def Let_def)
qed

theorem noReminder_reply_persists_completed_witness:
  "fst (handleSchedulingResponse (demoEnv 1000) afterTrigger ''+15550100'' ''no'') = Returned
   \<and> rows (db (snd (handleSchedulingResponse (demoEnv 1000) afterTrigger ''+15550100''
                      ''no''))) 1 =
       Some \<lparr>name = ''Sarah'', event = ''conference'', contextText = None, metAt = 0,
             phoneNumber = None, email = None, followUpStatus = FollowUpCompleted,
             scheduledFollowUp = None\<rparr>
   \<and> sched (snd (handleSchedulingResponse (demoEnv 1000) afterTrigger ''+15550100'' ''no''))
       = newScheduler
   \<and> sentMessages (snd (handleSchedulingResponse (demoEnv 1000) afterTrigger ''+15550100''
                          ''no''))
       = sentMessages afterTrigger @ [(''+15550100'', ''Sarah saved with no reminder set.'')]
   \<and> pendingFollowUpResponses
        (snd (handleSchedulingResponse (demoEnv 1000) afterTrigger ''+15550100'' ''no''))
        ''+15550100'' = None
   \<and> pendingContacts
        (snd (handleSchedulingResponse (demoEnv 1000) afterTrigger ''+15550100'' ''no''))
        ''+15550100'' = None"
proof -
  have p: "noReminder (parseSchedulingResponse (tzOffset (demoEnv 1000))
                         (clock (demoEnv 1000)) ''no'')"
    unfolding demoEnv_fields by code_simp
  have f: "pendingFollowUpResponses afterTrigger ''+15550100'' \<noteq> None"
    by (simp add: afterTrigger_fields)
  from noReminder_reply_persists_completed
         [OF f afterTrigger_fields(2) afterTrigger_fields(3) demoDraft_nonempty p
             demoEnv_fields(4) demoEnv_fields(3) refl]
  show ?thesis
    by (simp add: afterTrigger_fields orNull_def)
qed




lemma timeoutFires_due:
  "k < length (timeouts st) \<Longrightarrow> fst (timeouts st ! k) \<le> now \<Longrightarrow>
   timeoutFires now st k =
     st\<lparr>timeouts := take k (timeouts st) @ drop (Suc k) (timeouts st),
        pendingFollowUpResponses :=
          (pendingFollowUpResponses st)(snd (timeouts st ! k) := None)\<rparr>"
  by (simp add: timeoutFires_def)

lemma timeoutFires_early:
  "now < fst (timeouts st ! k) \<Longrightarrow> timeoutFires now st k = st"
  by (simp add: timeoutFires_def)

text \<open>
  Claim C3, as the code has it. A pending interaction is marked by the sender's flag
  alone; no expiry time is stored with it. A message from a sender whose flag is present
  is handled as a scheduling reply, whatever the clock reads and whatever timers are
  outstanding, and a scheduling reply for a sender without the flag does nothing.
  Creating the interaction sets the flag and registers a timer due ten minutes after
  the clock reading; the timer's callback does not run before it is due, and once it
  has run the flag of its sender is absent.
\<close>

theorem pending_read_checks_presence_only:
  "(pendingFollowUpResponses st (msgSender msg) \<noteq> None \<longrightarrow>
      handleMessage e st msg =
        handleSchedulingResponse e st (msgSender msg) (trim (msgText msg)))
   \<and> (pendingFollowUpResponses st sender = None \<longrightarrow>
        handleSchedulingResponse e st sender response = (Returned, st))
   \<and> (sendWorks e \<longrightarrow>
        pendingFollowUpResponses (snd (generateFollowUpSuggestions e st sender contact)) sender
          = Some True
      \<and> timeouts (snd (generateFollowUpSuggestions e st sender contact))
          = timeouts st @ [(clock e + 10 * 60 * 1000, sender)])
   \<and> (now < fst (timeouts st ! k) \<longrightarrow> timeoutFires now st k = st)
   \<and> (k < length (timeouts st) \<and> fst (timeouts st ! k) \<le> now \<longrightarrow>
        pendingFollowUpResponses (timeoutFires now st k) (snd (timeouts st ! k)) = None)"
  by (simp add: handleMessage_def handleSchedulingResponse_def Let_def
        generateFollowUpSuggestions_def imessageSend_def timeoutFires_def)

theorem pending_read_checks_presence_only_witness:
  "handleMessage (demoEnv 600000) afterTrigger (inbound ''m2'' ''no'' 600000) =
     handleSchedulingResponse (demoEnv 600000) afterTrigger ''+15550100'' ''no''
   \<and> timeoutFires 599999 afterTrigger 0 = afterTrigger
   \<and> pendingFollowUpResponses (timeoutFires 600000 afterTrigger 0) ''+15550100'' = None
   \<and> handleSchedulingResponse (demoEnv 600000) (timeoutFires 600000 afterTrigger 0)
        ''+15550100'' ''no'' = (Returned, timeoutFires 600000 afterTrigger 0)"
proof -
  have t: "trim ''no'' = ''no''"
    by (simp add: trim_def isSpace_def)
  note a = pending_read_checks_presence_only
             [where st = afterTrigger and msg = "inbound ''m2'' ''no'' 600000"
                and e = "demoEnv 600000" and now = 599999 and k = 0]
  note b = pending_read_checks_presence_only
             [where st = afterTrigger and now = 600000 and k = 0]
  note c = pending_read_checks_presence_only
             [where st = "timeoutFires 600000 afterTrigger 0" and e = "demoEnv 600000"
                and sender = "''+15550100''" and response = "''no''"]
  from a have 1:
    "handleMessage (demoEnv 600000) afterTrigger (inbound ''m2'' ''no'' 600000) =
       handleSchedulingResponse (demoEnv 600000) afterTrigger ''+15550100'' ''no''"
    by (simp add: inbound_def afterTrigger_fields t)
  from a have 2: "timeoutFires 599999 afterTrigger 0 = afterTrigger"
    by (simp add: afterTrigger_fields)
  from b have 3:
    "pendingFollowUpResponses (timeoutFires 600000 afterTrigger 0) ''+15550100'' = None"
    by (simp add: afterTrigger_fields)
  with c have 4:
    "handleSchedulingResponse (demoEnv 600000) (timeoutFires 600000 afterTrigger 0)
        ''+15550100'' ''no'' = (Returned, timeoutFires 600000 afterTrigger 0)"
    by blast
  from 1 2 3 4 show ?thesis by blast
qed

text \<open>
  The claim as the specification states it fails when a read comes at or after the
  expiry time but before the timer's callback has run: the interaction created at
  reading 0 is still acted on by a reply handled at reading 600000, which is 0 plus ten
  minutes. The reply "no" is resolved against it and the contact is stored.
\<close>

theorem read_at_expiry_counterexample:
  "timeouts afterTrigger = [(0 + 10 * 60 * 1000, ''+15550100'')]
   \<and> pendingFollowUpResponses afterTrigger ''+15550100'' = Some True
   \<and> fst (handleMessage (demoEnv (0 + 10 * 60 * 1000)) afterTrigger
            (inbound ''m2'' ''no'' (0 + 10 * 60 * 1000))) = Returned
   \<and> map_option name
        (rows (db (snd (handleMessage (demoEnv (0 + 10 * 60 * 1000)) afterTrigger
                          (inbound ''m2'' ''no'' (0 + 10 * 60 * 1000))))) 1) = Some ''Sarah''
   \<and> sentMessages (snd (handleMessage (demoEnv (0 + 10 * 60 * 1000)) afterTrigger
                          (inbound ''m2'' ''no'' (0 + 10 * 60 * 1000))))
       = sentMessages afterTrigger @ [(''+15550100'', ''Sarah saved with no reminder set.'')]"
proof -
  have t: "trim ''no'' = ''no''"
    by (simp add: trim_def isSpace_def)
  have v: "isValidSchedulingResponse 0 600000 ''no''"
    "parseSchedulingResponse 0 600000 ''no'' =
       \<lparr>sendNow = False, sendTomorrow = False, customDate = None, noReminder = True\<rparr>"
    "trim (toLowerCase ''no'') \<noteq> ''cancel''"
    by code_simp+
  show ?thesis
    using demoDraft_nonempty
    by (simp add: handleMessage_def inbound_def t v handleSchedulingResponse_def
          schedulingResponseBody_def afterTrigger_fields imessageSend_def demoEnv_fields
          clearPendingData_def addContact_def updateContact_def orNull_def Let_def)
qed

text \<open>
  A trigger overwrites whatever draft contact the sender had: the entry after
  \<open>handleMeetingMessage\<close> is the contact built from the new trigger alone, and the
  draft message is present.
\<close>

lemma meeting_replaces_draft:
  "pendingContacts (snd (handleMeetingMessage e st sender parsed)) sender
     = Some (meetingContact e parsed)
   \<and> pendingDraftMessages (snd (handleMeetingMessage e st sender parsed)) sender \<noteq> None"
  by (simp add: handleMeetingMessage_def generateFollowUpSuggestions_def imessageSend_def
        sendErrorMessage_def Let_def)

text \<open>
  Claim C7 at a failing input. The timer of an interaction is never cancelled, so it
  outlives the interaction it was set for. In the run below the second interaction
  (Bob, created at reading 2000) loses its flag at 600000, when the timer of the first,
  already declined interaction runs. The third trigger at 601000 replaces Bob's draft
  contact by Carol's and sets the flag again, with a timer due at 1201000; the timer of
  the second interaction runs at 602000 and removes the flag, so one second after its
  creation the replacement is no longer found, and a reply at 603000 gets the help text
  and stores nothing.
\<close>

theorem stale_timeout_ends_replacement_early:
  "map_option name (pendingContacts afterFirstTimeout ''+15550100'') = Some ''Bob''
   \<and> map_option name (pendingContacts afterThirdTrigger ''+15550100'') = Some ''Carol''
   \<and> pendingFollowUpResponses afterThirdTrigger ''+15550100'' = Some True
   \<and> timeouts afterThirdTrigger = [(602000, ''+15550100''), (1201000, ''+15550100'')]
   \<and> pendingFollowUpResponses afterSecondTimeout ''+15550100'' = None
   \<and> timeouts afterSecondTimeout = [(601000 + 10 * 60 * 1000, ''+15550100'')]
   \<and> rows (db (handleDetectedMessage (demoEnv 603000) afterSecondTimeout
                  (inbound ''m5'' ''tomorrow'' 603000))) 2 = None
   \<and> last (sentMessages (handleDetectedMessage (demoEnv 603000) afterSecondTimeout
                            (inbound ''m5'' ''tomorrow'' 603000)))
       = (''+15550100'', helpMessage)"
  by code_simp
lemma pendingMaps_send:
  "pendingMaps (snd (imessageSend e st r t)) = pendingMaps st"
  by (simp add: imessageSend_def pendingMaps_def)

lemma pendingMaps_sendError:
  "pendingMaps (snd (sendErrorMessage e st r t)) = pendingMaps st"
  by (simp add: sendErrorMessage_def pendingMaps_send)

lemma schedulingResponse_pendingMaps:
  "pendingMaps (snd (handleSchedulingResponse e st sender response)) = pendingMaps st
   \<or> pendingMaps (snd (handleSchedulingResponse e st sender response))
       = pendingMaps (clearPendingData st sender)"
  by (simp add: handleSchedulingResponse_def schedulingResponseBody_def imessageSend_def
        sendErrorMessage_def pendingMaps_def clearPendingData_def Let_def split_def
        split: option.split)

lemma cancelCommand_pendingMaps:
  "pendingMaps (snd (handleCancelCommand e st sender)) = pendingMaps (clearPendingData st sender)"
  by (simp add: handleCancelCommand_def imessageSend_def sendErrorMessage_def pendingMaps_def
        clearPendingData_def Let_def)

lemma summary_pendingMaps:
  "pendingMaps (snd (handleSummaryRequest e st sender)) = pendingMaps st"
  by (simp add: handleSummaryRequest_def imessageSend_def sendErrorMessage_def pendingMaps_def
        split: option.split)

lemma help_pendingMaps:
  "pendingMaps (snd (sendHelpMessage e st sender)) = pendingMaps st"
  by (simp add: sendHelpMessage_def pendingMaps_send)

lemma meeting_pending:
  "pendingContacts (snd (handleMeetingMessage e st sender parsed)) sender \<noteq> None
   \<and> pendingDraftMessages (snd (handleMeetingMessage e st sender parsed)) sender \<noteq> None
   \<and> (\<forall>s. s \<noteq> sender \<longrightarrow>
         pendingFollowUpResponses (snd (handleMeetingMessage e st sender parsed)) s
           = pendingFollowUpResponses st s
       \<and> pendingContacts (snd (handleMeetingMessage e st sender parsed)) s
           = pendingContacts st s
       \<and> pendingDraftMessages (snd (handleMeetingMessage e st sender parsed)) s
           = pendingDraftMessages st s)"
  by (simp add: handleMeetingMessage_def generateFollowUpSuggestions_def imessageSend_def
        sendErrorMessage_def Let_def)

lemma pendingMaps_followUpReminder:
  "pendingMaps (sendFollowUpReminder e st cId m) = pendingMaps st"
  by (simp add: sendFollowUpReminder_def pendingMaps_send split: option.split)

lemma message_pendingMaps:
  "pendingMaps (snd (handleMessage e st msg)) = pendingMaps st
   \<or> pendingMaps (snd (handleMessage e st msg)) = pendingMaps (clearPendingData st (msgSender msg))
   \<or> (pendingContacts (snd (handleMessage e st msg)) (msgSender msg) \<noteq> None
      \<and> pendingDraftMessages (snd (handleMessage e st msg)) (msgSender msg) \<noteq> None
      \<and> (\<forall>s. s \<noteq> msgSender msg \<longrightarrow>
            pendingContacts (snd (handleMessage e st msg)) s = pendingContacts st s
          \<and> pendingDraftMessages (snd (handleMessage e st msg)) s = pendingDraftMessages st s))"
proof -
  consider (reply) "pendingFollowUpResponses st (msgSender msg) \<noteq> None"
    | (cancel) "pendingFollowUpResponses st (msgSender msg) = None"
        "trim (toLowerCase (trim (msgText msg))) = ''cancel''"
    | (summary) "pendingFollowUpResponses st (msgSender msg) = None"
        "trim (toLowerCase (trim (msgText msg))) \<noteq> ''cancel''"
        "str_includes (toLowerCase (trim (msgText msg))) ''summary''
         \<or> str_includes (toLowerCase (trim (msgText msg))) ''recent contacts''"
    | (meeting) "pendingFollowUpResponses st (msgSender msg) = None"
        "trim (toLowerCase (trim (msgText msg))) \<noteq> ''cancel''"
        "\<not> (str_includes (toLowerCase (trim (msgText msg))) ''summary''
            \<or> str_includes (toLowerCase (trim (msgText msg))) ''recent contacts'')"
        "isValidMeeting (parseMessage e (trim (msgText msg)))"
    | (other) "pendingFollowUpResponses st (msgSender msg) = None"
        "trim (toLowerCase (trim (msgText msg))) \<noteq> ''cancel''"
        "\<not> (str_includes (toLowerCase (trim (msgText msg))) ''summary''
            \<or> str_includes (toLowerCase (trim (msgText msg))) ''recent contacts'')"
        "\<not> isValidMeeting (parseMessage e (trim (msgText msg)))"
    by blast
  then show ?thesis
  proof cases
    case reply
    then have "handleMessage e st msg =
                 handleSchedulingResponse e st (msgSender msg) (trim (msgText msg))"
      by (simp add: handleMessage_def Let_def)
    with schedulingResponse_pendingMaps [of e st "msgSender msg" "trim (msgText msg)"]
    show ?thesis by auto
  next
    case cancel
    then have "handleMessage e st msg = handleCancelCommand e st (msgSender msg)"
      by (simp add: handleMessage_def Let_def)
    with cancelCommand_pendingMaps [of e st "msgSender msg"] show ?thesis by simp
  next
    case summary
    then have "handleMessage e st msg = handleSummaryRequest e st (msgSender msg)"
      by (auto simp: handleMessage_def Let_def)
    with summary_pendingMaps [of e st "msgSender msg"] show ?thesis by simp
  next
    case meeting
    then have "handleMessage e st msg =
                 handleMeetingMessage e st (msgSender msg) (parseMessage e (trim (msgText msg)))"
      by (simp add: handleMessage_def Let_def)
    with meeting_pending
           [of e st "msgSender msg" "parseMessage e (trim (msgText msg))"]
    show ?thesis by simp
  next
    case other
    then have "handleMessage e st msg = sendHelpMessage e st (msgSender msg)"
      by (simp add: handleMessage_def Let_def)
    with help_pendingMaps [of e st "msgSender msg"] show ?thesis by simp
  qed
qed

lemma detected_pendingMaps:
  "pendingMaps (handleDetectedMessage e st msg) =
     pendingMaps (snd (handleMessage e st (msg\<lparr>msgText := trim (msgText msg)\<rparr>)))"
  by (simp add: handleDetectedMessage_def Let_def pendingMaps_send
        split: prod.split outcome.split)

text \<open>
  Claim C10. When the timer set at the creation of a pending interaction runs, it
  removes the awaiting flag of its sender and nothing else: the draft contacts and the
  draft messages of all senders, the flags of other senders, the contacts table, the
  scheduler and the sent messages are as before. Handling an inbound message makes a
  stored draft contact or draft message disappear only for the sender of that message
  and only by \<open>clearPendingData\<close>: the three pending maps are then those of
  \<open>clearPendingData\<close> applied to the state before. (A later trigger overwrites the
  entries instead.) Delivering a reminder leaves the three maps alone.
\<close>

theorem timeout_removes_only_flag:
  "pendingContacts (timeoutFires now st k) = pendingContacts st
   \<and> pendingDraftMessages (timeoutFires now st k) = pendingDraftMessages st
   \<and> (\<forall>s. s \<noteq> snd (timeouts st ! k) \<longrightarrow>
          pendingFollowUpResponses (timeoutFires now st k) s = pendingFollowUpResponses st s)
   \<and> db (timeoutFires now st k) = db st
   \<and> sched (timeoutFires now st k) = sched st
   \<and> sentMessages (timeoutFires now st k) = sentMessages st
   \<and> (\<forall>s. (pendingContacts st s \<noteq> None
             \<and> pendingContacts (handleDetectedMessage e st msg) s = None)
          \<or> (pendingDraftMessages st s \<noteq> None
             \<and> pendingDraftMessages (handleDetectedMessage e st msg) s = None)
          \<longrightarrow> s = msgSender msg
            \<and> pendingMaps (handleDetectedMessage e st msg)
                = pendingMaps (clearPendingData st (msgSender msg)))
   \<and> pendingMaps (sendFollowUpReminder e st cId m) = pendingMaps st"
proof -
  have t: "pendingContacts (timeoutFires now st k) = pendingContacts st
   \<and> pendingDraftMessages (timeoutFires now st k) = pendingDraftMessages st
   \<and> (\<forall>s. s \<noteq> snd (timeouts st ! k) \<longrightarrow>
          pendingFollowUpResponses (timeoutFires now st k) s = pendingFollowUpResponses st s)
   \<and> db (timeoutFires now st k) = db st
   \<and> sched (timeoutFires now st k) = sched st
   \<and> sentMessages (timeoutFires now st k) = sentMessages st"
    by (simp add: timeoutFires_def)
  have h: "s = msgSender msg
            \<and> pendingMaps (handleDetectedMessage e st msg)
                = pendingMaps (clearPendingData st (msgSender msg))"
    if "(pendingContacts st s \<noteq> None
             \<and> pendingContacts (handleDetectedMessage e st msg) s = None)
          \<or> (pendingDraftMessages st s \<noteq> None
             \<and> pendingDraftMessages (handleDetectedMessage e st msg) s = None)" for s
  proof -
    let ?m = "msg\<lparr>msgText := trim (msgText msg)\<rparr>"
    let ?st' = "snd (handleMessage e st ?m)"
    have eq: "pendingMaps (handleDetectedMessage e st msg) = pendingMaps ?st'"
      by (rule detected_pendingMaps)
    then have c: "pendingContacts (handleDetectedMessage e st msg) = pendingContacts ?st'"
      and d: "pendingDraftMessages (handleDetectedMessage e st msg) = pendingDraftMessages ?st'"
      by (simp_all add: pendingMaps_def)
    from message_pendingMaps [of e st ?m]
    consider (same) "pendingMaps ?st' = pendingMaps st"
      | (cleared) "pendingMaps ?st' = pendingMaps (clearPendingData st (msgSender msg))"
      | (begun) "pendingContacts ?st' (msgSender msg) \<noteq> None"
          "pendingDraftMessages ?st' (msgSender msg) \<noteq> None"
          "\<forall>s. s \<noteq> msgSender msg \<longrightarrow>
              pendingContacts ?st' s = pendingContacts st s
            \<and> pendingDraftMessages ?st' s = pendingDraftMessages st s"
      by auto
    then show ?thesis
    proof cases
      case same
      with that c d show ?thesis by (auto simp: pendingMaps_def)
    next
      case cleared
      then have "pendingContacts ?st' = (pendingContacts st)(msgSender msg := None)"
        "pendingDraftMessages ?st' = (pendingDraftMessages st)(msgSender msg := None)"
        by (simp_all add: pendingMaps_def clearPendingData_def)
      with that c d have "s = msgSender msg"
        by (auto split: if_splits)
      with cleared eq show ?thesis by simp
    next
      case begun
      with that c d show ?thesis by (cases "s = msgSender msg") auto
    qed
  qed
  from t h pendingMaps_followUpReminder show ?thesis by blast
qed

theorem timeout_removes_only_flag_witness:
  "pendingFollowUpResponses (timeoutFires 600000 afterTrigger 0) ''+15550100'' = None
   \<and> map_option name (pendingContacts (timeoutFires 600000 afterTrigger 0) ''+15550100'')
       = Some ''Sarah''
   \<and> pendingDraftMessages (timeoutFires 600000 afterTrigger 0) ''+15550100''
       = pendingDraftMessages afterTrigger ''+15550100''
   \<and> inbound ''m2'' ''cancel'' 700000 =
       \<lparr>msgId = ''m2'', msgSender = ''+15550100'', msgText = ''cancel'', msgDate = 700000\<rparr>
   \<and> pendingMaps (handleDetectedMessage (demoEnv 700000) (timeoutFires 600000 afterTrigger 0)
                     (inbound ''m2'' ''cancel'' 700000))
       = pendingMaps (clearPendingData (timeoutFires 600000 afterTrigger 0) ''+15550100'')"
proof -
  let ?st = "timeoutFires 600000 afterTrigger 0"
  let ?msg = "inbound ''m2'' ''cancel'' 700000"
  note a = timeout_removes_only_flag
             [of 600000 afterTrigger 0 "demoEnv 700000" ?msg 1 "''m''"]
  note b = timeout_removes_only_flag [of 600000 ?st 0 "demoEnv 700000" ?msg 1 "''m''"]
  have 1: "pendingFollowUpResponses ?st ''+15550100'' = None"
    by (simp add: timeoutFires_def afterTrigger_fields)
  from a have 2: "map_option name (pendingContacts ?st ''+15550100'') = Some ''Sarah''"
    and 3: "pendingDraftMessages ?st ''+15550100'' = pendingDraftMessages afterTrigger ''+15550100''"
    by (simp_all add: afterTrigger_fields)
  from 2 have c: "pendingContacts ?st ''+15550100'' \<noteq> None"
    by auto
  have d: "pendingContacts (handleDetectedMessage (demoEnv 700000) ?st ?msg) ''+15550100'' = None"
    by code_simp
  from b c d have 5: "pendingMaps (handleDetectedMessage (demoEnv 700000) ?st ?msg)
       = pendingMaps (clearPendingData ?st ''+15550100'')"
    by (simp add: inbound_def)
  from 1 2 3 5 show ?thesis by (simp add: inbound_def)
qed

section \<open>Properties of the polling loop\<close>

lemma count_update:
  "i < length xs \<Longrightarrow>
   length (filter P (xs[i := y])) + (if P (xs ! i) then 1 else 0)
     = length (filter P xs) + (if P y then 1 else (0::nat))"
proof (induction xs arbitrary: i)
  case Nil
  then show ?case by simp
next
  case (Cons x xs)
  show ?case
  proof (cases i)
    case 0
    then show ?thesis by simp
  next
    case (Suc j)
    with Cons.prems have "j < length xs" by simp
    from Cons.IH [OF this] Suc show ?thesis by simp
  qed
qed

lemma count_pos:
  "i < length xs \<Longrightarrow> P (xs ! i) \<Longrightarrow> 0 < length (filter P xs)"
  by (metis filter_empty_conv length_greater_0_conv nth_mem)

lemma routesToCancel_flag [simp]:
  "routesToCancel (st\<lparr>isProcessingMessage := b\<rparr>) msg = routesToCancel st msg"
  by (simp add: routesToCancel_def)

lemma handlerPrefix_flag:
  "isProcessingMessage (handlerPrefix e (st\<lparr>isProcessingMessage := True\<rparr>) msg)
     = (\<not> routesToCancel st msg)"
  by (simp add: handlerPrefix_def routesToCancel_flag)

lemma activation_simps [simp]:
  "isAwaiting AwaitingMessages" "\<not> isAwaiting (Handling e m)" "\<not> isAwaiting Finished"
  "\<not> isHandling AwaitingMessages" "isHandling (Handling e m)" "\<not> isHandling Finished"
  by (simp_all add: isAwaiting_def isHandling_def)

lemma not_both: "isAwaiting a \<Longrightarrow> \<not> isHandling a"
  by (cases a) simp_all

lemma serialized_pollTick:
  assumes "serialized rt" and "awaitingCount rt = 0"
  shows "serialized (pollTick rt)"
proof (cases "isProcessingMessage (appState rt)")
  case True
  with assms show ?thesis by (simp add: pollTick_def)
next
  case False
  with assms have h: "handlingCount rt = 0"
    by (auto simp: serialized_def)
  from False have "awaitingCount (pollTick rt) = awaitingCount rt + 1"
    "handlingCount (pollTick rt) = handlingCount rt"
    "appState (pollTick rt) = appState rt"
    by (simp_all add: pollTick_def awaitingCount_def handlingCount_def)
  with assms(2) h False show ?thesis by (simp add: serialized_def)
qed

lemma pollTick_flag: "isProcessingMessage (appState rt) \<Longrightarrow> pollTick rt = rt"
  by (simp add: pollTick_def)

lemma serialized_messagesFail: "serialized rt \<Longrightarrow> serialized (messagesFail rt i)"
proof (cases "i < length (activations rt) \<and> isAwaiting (activations rt ! i)")
  case False
  then show "serialized rt \<Longrightarrow> ?thesis" by (auto simp: messagesFail_def)
next
  case True
  assume s: "serialized rt"
  from True have i: "i < length (activations rt)" and a: "isAwaiting (activations rt ! i)"
    by simp_all
  from a have h: "\<not> isHandling (activations rt ! i)" by (rule not_both)
  from count_update [OF i, of isAwaiting Finished] a
  have 1: "awaitingCount (messagesFail rt i) + 1 = awaitingCount rt"
    using True by (simp add: messagesFail_def awaitingCount_def)
  from count_update [OF i, of isHandling Finished] h
  have 2: "handlingCount (messagesFail rt i) = handlingCount rt"
    using True by (simp add: messagesFail_def handlingCount_def)
  have 3: "appState (messagesFail rt i) = appState rt"
    by (simp add: messagesFail_def)
  from s 1 2 3 show ?thesis by (auto simp: serialized_def)
qed

lemma serialized_handlerReturns: "serialized rt \<Longrightarrow> serialized (handlerReturns rt i)"
proof (cases "i < length (activations rt) \<and> isHandling (activations rt ! i)")
  case False
  then show "serialized rt \<Longrightarrow> ?thesis"
    by (cases "activations rt ! i") (auto simp: handlerReturns_def)
next
  case True
  assume s: "serialized rt"
  from True have i: "i < length (activations rt)" by simp
  from True obtain e m where a: "activations rt ! i = Handling e m"
    by (cases "activations rt ! i") simp_all
  let ?rt = "handlerReturns rt i"
  have acts: "activations ?rt = (activations rt)[i := Finished]"
    and flag: "\<not> isProcessingMessage (appState ?rt)"
    using i a by (simp_all add: handlerReturns_def)
  from count_update [OF i, of isAwaiting Finished] a
  have 1: "awaitingCount ?rt = awaitingCount rt"
    by (simp add: acts awaitingCount_def)
  from count_update [OF i, of isHandling Finished] a
  have 2: "handlingCount ?rt + 1 = handlingCount rt"
    by (simp add: acts handlingCount_def)
  from s 1 2 flag show ?thesis by (auto simp: serialized_def)
qed

lemma serialized_messagesArrive:
  assumes s: "serialized rt" and nc: "\<not> picksCancel e rt messages"
  shows "serialized (messagesArrive e rt i messages)"
proof (cases "i < length (activations rt) \<and> isAwaiting (activations rt ! i)")
  case False
  with s show ?thesis by (auto simp: messagesArrive_def)
next
  case True
  then have i: "i < length (activations rt)" and a: "isAwaiting (activations rt ! i)"
    by simp_all
  from a have h: "\<not> isHandling (activations rt ! i)" by (rule not_both)
  from count_pos [OF i, of isAwaiting] a have "0 < awaitingCount rt"
    by (simp add: awaitingCount_def)
  with s have aw: "awaitingCount rt = 1" and hc: "handlingCount rt = 0"
    and fl: "\<not> isProcessingMessage (appState rt)"
    by (auto simp: serialized_def)
  let ?rt = "messagesArrive e rt i messages"
  let ?sel = "filter (\<lambda>msg. msgSender msg = myPhone e \<and> msgText msg \<noteq> []
                             \<and> trim (msgText msg) \<noteq> []) messages"
  have skipped: "serialized ?rt"
    if acts: "activations ?rt = (activations rt)[i := Finished]"
      and flag: "isProcessingMessage (appState ?rt) = isProcessingMessage (appState rt)"
  proof -
    from count_update [OF i, of isAwaiting Finished] a
    have 1: "awaitingCount ?rt + 1 = awaitingCount rt"
      by (simp add: acts awaitingCount_def)
    from count_update [OF i, of isHandling Finished] h
    have 2: "handlingCount ?rt = handlingCount rt"
      by (simp add: acts handlingCount_def)
    from aw hc fl 1 2 flag show ?thesis by (simp add: serialized_def)
  qed
  have picked: "serialized ?rt"
    if acts: "activations ?rt = (activations rt)[i := Handling e m]"
      and st: "appState ?rt = handlerPrefix e ((appState rt)\<lparr>isProcessingMessage := True\<rparr>) m"
      and r: "\<not> routesToCancel (appState rt) m" for m
  proof -
    from st r have flag: "isProcessingMessage (appState ?rt)"
      by (simp add: handlerPrefix_flag)
    from count_update [OF i, of isAwaiting "Handling e m"] a
    have 1: "awaitingCount ?rt + 1 = awaitingCount rt"
      by (simp add: acts awaitingCount_def)
    from count_update [OF i, of isHandling "Handling e m"] h
    have 2: "handlingCount ?rt = handlingCount rt + 1"
      by (simp add: acts handlingCount_def)
    from aw hc 1 2 flag show ?thesis by (simp add: serialized_def)
  qed
  show ?thesis
  proof (cases ?sel)
    case Nil
    with True show ?thesis
      by (intro skipped) (simp_all add: messagesArrive_def Let_def)
  next
    case (Cons m older)
    show ?thesis
    proof (cases "Some (msgId m) \<noteq> lastProcessedMessageId (appState rt)
                  \<and> clock e - msgDate m < 30000")
      case pick: True
      with nc Cons have "\<not> routesToCancel (appState rt) m"
        by (simp add: picksCancel_def)
      with pick Cons True show ?thesis
        by (intro picked [of m]) (simp_all add: messagesArrive_def Let_def)
    next
      case False
      with Cons True show ?thesis
        by (intro skipped) (auto simp: messagesArrive_def Let_def)
    qed
  qed
qed

lemma serialized_run:
  "serialized rt \<Longrightarrow> admissible rt evs \<Longrightarrow> serialized (run rt evs)"
proof (induction evs arbitrary: rt)
  case Nil
  then show ?case by (simp add: run_def)
next
  case (Cons ev evs)
  show ?case
  proof (cases ev)
    case PollTick
    with Cons.prems have "serialized (pollTick rt)" "admissible (pollTick rt) evs"
      by (simp_all add: serialized_pollTick)
    from Cons.IH [OF this] PollTick show ?thesis by (simp add: run_def)
  next
    case (MessagesArrive e i messages)
    with Cons.prems have "serialized (messagesArrive e rt i messages)"
      "admissible (messagesArrive e rt i messages) evs"
      by (simp_all add: serialized_messagesArrive)
    from Cons.IH [OF this] MessagesArrive show ?thesis by (simp add: run_def)
  next
    case (MessagesFail i)
    with Cons.prems have "serialized (messagesFail rt i)" "admissible (messagesFail rt i) evs"
      by (simp_all add: serialized_messagesFail)
    from Cons.IH [OF this] MessagesFail show ?thesis by (simp add: run_def)
  next
    case (HandlerReturns i)
    with Cons.prems have "serialized (handlerReturns rt i)"
      "admissible (handlerReturns rt i) evs"
      by (simp_all add: serialized_handlerReturns)
    from Cons.IH [OF this] HandlerReturns show ?thesis by (simp add: run_def)
  qed
qed

lemma admissible_take: "admissible rt evs \<Longrightarrow> admissible rt (take n evs)"
proof (induction evs arbitrary: rt n)
  case Nil
  then show ?case by simp
next
  case (Cons ev evs)
  show ?case
  proof (cases n)
    case 0
    then show ?thesis by simp
  next
    case (Suc k)
    with Cons show ?thesis by (cases ev) simp_all
  qed
qed

text \<open>
  Claim C8, as the code has it. A tick that finds the flag set starts nothing. The flag
  is set when an activation picks a message and reset when its handler returns. Hence,
  in every run in which no tick comes while another activation still waits for its
  messages and no cancel command is picked while no interaction is pending, every
  state reached is serialized: at most one message is being processed, and the flag is
  set exactly while one is. The cancel command is the exception by construction: its
  handler resets the flag before its first suspension.
\<close>

theorem flag_serializes_outside_cancel:
  "(isProcessingMessage (appState rt) \<longrightarrow> pollTick rt = rt)
   \<and> serialized newRuntime
   \<and> (serialized rt \<and> admissible rt evs \<longrightarrow> (\<forall>n. serialized (run rt (take n evs))))
   \<and> (serialized rt \<longrightarrow>
        handlingCount rt \<le> 1
      \<and> (handlingCount rt = 1 \<longrightarrow> isProcessingMessage (appState rt)))
   \<and> (routesToCancel st msg \<longrightarrow>
        \<not> isProcessingMessage (handlerPrefix e (st\<lparr>isProcessingMessage := True\<rparr>) msg))"
proof -
  have 1: "serialized newRuntime"
    by (simp add: serialized_def newRuntime_def newApp_def awaitingCount_def
          handlingCount_def)
  have 2: "serialized (run rt (take n evs))" if "serialized rt" "admissible rt evs" for n
    using that by (intro serialized_run admissible_take)
  have 3: "handlingCount rt \<le> 1
      \<and> (handlingCount rt = 1 \<longrightarrow> isProcessingMessage (appState rt))" if "serialized rt"
    using that by (auto simp: serialized_def)
  from 1 2 3 pollTick_flag handlerPrefix_flag show ?thesis by blast
qed

theorem flag_serializes_outside_cancel_witness:
  "admissible newRuntime triggerOnce
   \<and> serialized (run newRuntime (take 2 triggerOnce))
   \<and> handlingCount (run newRuntime (take 2 triggerOnce)) = 1
   \<and> isProcessingMessage (appState (run newRuntime (take 2 triggerOnce)))
   \<and> pollTick (run newRuntime (take 2 triggerOnce)) = run newRuntime (take 2 triggerOnce)
   \<and> serialized (run newRuntime (take 4 triggerOnce))
   \<and> handlingCount (run newRuntime (take 4 triggerOnce)) = 0"
proof -
  have a: "admissible newRuntime triggerOnce"
    by code_simp
  have h: "handlingCount (run newRuntime (take 2 triggerOnce)) = 1"
    "handlingCount (run newRuntime (take 4 triggerOnce)) = 0"
    by code_simp+
  from flag_serializes_outside_cancel [where rt = newRuntime and evs = triggerOnce] a
  have s: "serialized (run newRuntime (take n triggerOnce))" for n
    by blast
  from flag_serializes_outside_cancel
         [where rt = "run newRuntime (take 2 triggerOnce)" and evs = triggerOnce] s [of 2] h(1)
  have f: "isProcessingMessage (appState (run newRuntime (take 2 triggerOnce)))"
    by blast
  with flag_serializes_outside_cancel
         [where rt = "run newRuntime (take 2 triggerOnce)" and evs = triggerOnce]
  have p: "pollTick (run newRuntime (take 2 triggerOnce)) = run newRuntime (take 2 triggerOnce)"
    by blast
  from a s [of 2] s [of 4] h f p show ?thesis by blast
qed

text \<open>
  The claim as the specification states it fails on the cancel command. After the
  command has been picked the flag is already reset while its handler is still under
  way, so the next tick starts a second activation, which picks the same message:
  two messages are being processed at once, with the flag not set.
\<close>

theorem cancel_command_counterexample:
  "handlingCount (run newRuntime (take 2 cancelTwice)) = 1
   \<and> \<not> isProcessingMessage (appState (run newRuntime (take 2 cancelTwice)))
   \<and> handlingCount (run newRuntime cancelTwice) = 2
   \<and> \<not> isProcessingMessage (appState (run newRuntime cancelTwice))"
  by code_simp

end
